theory Spec2Isabelle
  imports Main "HOL-Library.AList" "HOL-Library.Sublist"
begin

section \<open>Strings\<close>

text \<open>
  A Python \<open>str\<close> is a sequence of Unicode code points. A code point is modelled as a
  natural number and a string as the list of its code points; \<open>ustr\<close> reads an ASCII
  literal as such a string.
\<close>

type_synonym uchar = nat
type_synonym ustring = "uchar list"

abbreviation ustr :: "string \<Rightarrow> ustring" where
  "ustr s \<equiv> map of_char s"

text \<open>The character class \<open>[a-zA-Z0-9]\<close> of the regular expression in \<open>normalize\<close>.\<close>

definition is_alnum :: "uchar \<Rightarrow> bool" where
  "is_alnum c \<longleftrightarrow>
     (of_char CHR ''a'' \<le> c \<and> c \<le> of_char CHR ''z'') \<or>
     (of_char CHR ''A'' \<le> c \<and> c \<le> of_char CHR ''Z'') \<or>
     (of_char CHR ''0'' \<le> c \<and> c \<le> of_char CHR ''9'')"

text \<open>\<open>re.sub(r'[^a-zA-Z0-9]', '_', s)\<close>: every code point outside the class becomes \<open>_\<close>.\<close>

definition re_sub :: "ustring \<Rightarrow> ustring" where
  "re_sub s = map (\<lambda>c. if is_alnum c then c else of_char CHR ''_'') s"

definition ascii_lower :: "uchar \<Rightarrow> uchar" where
  "ascii_lower c =
     (if of_char CHR ''A'' \<le> c \<and> c \<le> of_char CHR ''Z'' then c + 32 else c)"

definition is_ascii :: "ustring \<Rightarrow> bool" where
  "is_ascii s \<longleftrightarrow> list_all (\<lambda>c. c < 128) s"

text \<open>
  \<open>str.lower()\<close>. On a string of ASCII code points it lowers \<open>A\<close>..\<open>Z\<close> and leaves the
  rest; on any other string it is the Unicode lowercasing algorithm, which is not part of
  the program and is taken as the parameter \<open>ulower\<close>.
\<close>

definition str_lower :: "(ustring \<Rightarrow> ustring) \<Rightarrow> ustring \<Rightarrow> ustring" where
  "str_lower ulower s = (if is_ascii s then map ascii_lower s else ulower s)"

section \<open>Paths and the file tree\<close>

type_synonym path = "ustring list"

type_synonym content = "nat list"

datatype node = File content | Dir "(ustring \<times> node) list"

type_synonym entries = "(ustring \<times> node) list"

text \<open>
  \<open>str.rfind\<close>: the index of the last occurrence of a code point, \<open>None\<close> where Python
  returns \<open>-1\<close>.
\<close>

fun rfind :: "uchar \<Rightarrow> ustring \<Rightarrow> nat option" where
  "rfind c [] = None"
| "rfind c (x # xs) =
     (case rfind c xs of
        Some i \<Rightarrow> Some (Suc i)
      | None \<Rightarrow> if x = c then Some 0 else None)"

text \<open>\<open>PurePath.name\<close>: the final component, the empty string for the root.\<close>

definition name_of :: "path \<Rightarrow> ustring" where
  "name_of p = (if p = [] then [] else last p)"

text \<open>
  \<open>PurePath.suffix\<close> and \<open>PurePath.stem\<close> of pathlib (Python 3.8 to 3.13):
  with \<open>i = name.rfind('.')\<close>, the suffix is \<open>name[i:]\<close> and the stem \<open>name[:i]\<close>
  when \<open>0 < i < len(name) - 1\<close>; otherwise the suffix is empty and the stem is the name.
\<close>

definition suffix_of :: "ustring \<Rightarrow> ustring" where
  "suffix_of name =
     (case rfind (of_char CHR ''.'') name of
        Some i \<Rightarrow> if 0 < i \<and> Suc i < length name then drop i name else []
      | None \<Rightarrow> [])"

definition stem_of :: "ustring \<Rightarrow> ustring" where
  "stem_of name =
     (case rfind (of_char CHR ''.'') name of
        Some i \<Rightarrow> if 0 < i \<and> Suc i < length name then take i name else name
      | None \<Rightarrow> name)"

section \<open>The libraries the program calls\<close>

text \<open>
  The program calls six functions of libraries that are not part of it. Each one is a
  field of the record \<open>library\<close>, so that every definition below is stated for any
  behaviour of theirs:
  \<^item> \<open>translit\<close>: \<open>translit(text, 'uk', reversed=True)\<close> of the package transliterate;
  \<^item> \<open>unicode_lower\<close>: \<open>str.lower()\<close> on a string that is not pure ASCII;
  \<^item> \<open>unpack_archive\<close>: the decoder of \<open>shutil.unpack_archive\<close>, reading the archive at a
    path of a file tree;
  \<^item> \<open>rar_extractall\<close>: the decoder of \<open>rarfile.RarFile(path).extractall\<close>;
  \<^item> \<open>path_of_string\<close>: the constructor \<open>Path(s)\<close>, which gives the components of
    the path or raises;
  \<^item> \<open>stat_error\<close>: the OSError with which \<open>os.stat\<close> of a path fails for another reason
    than the path being absent (a name too long, for one), if any; \<open>Path.exists()\<close>
    re-raises it.
  A decoder returns the entries it has extracted (\<open>Extracted\<close>), or it raises
  (\<open>Raises\<close>), and then it may already have written some entries: they come with the
  exception.
\<close>

datatype exn =
    TypeError ustring
  | AttributeError ustring
  | ValueError ustring
  | OSError path
  | ReadError ustring
  | RarError ustring
  | OtherError ustring

datatype decoded = Extracted entries | Raises exn entries

record library =
  translit :: "ustring \<Rightarrow> ustring"
  unicode_lower :: "ustring \<Rightarrow> ustring"
  unpack_archive :: "path \<Rightarrow> node \<Rightarrow> decoded"
  rar_extractall :: "path \<Rightarrow> node \<Rightarrow> decoded"
  path_of_string :: "ustring \<Rightarrow> exn + path"
  stat_error :: "path \<Rightarrow> exn option"

subsection \<open>Operations of the file system\<close>

text \<open>
  The file system is the tree under its root directory, and a path is the list of the
  components that lead from the root to an entry. The entries of a directory are kept in
  the order in which the system lists them. Symbolic links and permissions are not
  modelled. Every failure of a system call is the exception \<open>OSError\<close> (Python raises
  its subclasses FileNotFoundError, FileExistsError, NotADirectoryError and so on; the
  program catches none of them). A path of the tree either holds an entry or is absent:
  the other ways in which a path can fail belong to \<open>stat_error\<close> and are looked at
  where \<open>main\<close> checks its argument.
\<close>

fun lookup :: "node \<Rightarrow> path \<Rightarrow> node option" where
  "lookup n [] = Some n"
| "lookup (File c) (x # p) = None"
| "lookup (Dir es) (x # p) = (case map_of es x of None \<Rightarrow> None | Some n \<Rightarrow> lookup n p)"

definition path_exists :: "node \<Rightarrow> path \<Rightarrow> bool" where
  "path_exists fs p \<longleftrightarrow> lookup fs p \<noteq> None"

definition is_file :: "node \<Rightarrow> path \<Rightarrow> bool" where
  "is_file fs p = (case lookup fs p of Some (File c) \<Rightarrow> True | _ \<Rightarrow> False)"

definition is_dir :: "node \<Rightarrow> path \<Rightarrow> bool" where
  "is_dir fs p = (case lookup fs p of Some (Dir es) \<Rightarrow> True | _ \<Rightarrow> False)"

text \<open>
  \<open>set_at p v fs\<close> writes the entry at \<open>p\<close> (\<open>Some n\<close>) or removes it (\<open>None\<close>),
  where the parent of \<open>p\<close> is a directory; elsewhere the tree is left as it is.
\<close>

fun set_at :: "path \<Rightarrow> node option \<Rightarrow> node \<Rightarrow> node" where
  "set_at [] v n = (case v of Some m \<Rightarrow> m | None \<Rightarrow> n)"
| "set_at (x # p) v (File c) = File c"
| "set_at [x] v (Dir es) =
     Dir (case v of Some m \<Rightarrow> AList.update x m es | None \<Rightarrow> AList.delete x es)"
| "set_at (x # y # p) v (Dir es) =
     (case map_of es x of
        None \<Rightarrow> Dir es
      | Some n \<Rightarrow> Dir (AList.update x (set_at (y # p) v n) es))"

text \<open>
  \<open>Path.mkdir(parents=True)\<close>: creates the directory and every missing ancestor. It
  fails where the path already exists or an ancestor is a regular file.
\<close>

fun mkdir_p :: "path \<Rightarrow> node \<Rightarrow> exn + node" where
  "mkdir_p [] (Dir es) = Inr (Dir es)"
| "mkdir_p [] (File c) = Inl (OSError [])"
| "mkdir_p (x # p) (File c) = Inl (OSError [])"
| "mkdir_p (x # p) (Dir es) =
     (case mkdir_p p (case map_of es x of None \<Rightarrow> Dir [] | Some n \<Rightarrow> n) of
        Inl e \<Rightarrow> Inl e
      | Inr n' \<Rightarrow> Inr (Dir (AList.update x n' es)))"

definition mkdir_parents :: "path \<Rightarrow> node \<Rightarrow> exn + node" where
  "mkdir_parents p fs =
     (if path_exists fs p then Inl (OSError p)
      else case mkdir_p p fs of Inl e \<Rightarrow> Inl (OSError p) | Inr fs' \<Rightarrow> Inr fs')"

text \<open>
  \<open>Path.mkdir(exist_ok=True)\<close>: nothing to do where the directory exists; it fails
  where the path is a regular file, or where the parent is missing or is not a directory.
\<close>

definition mkdir_exist_ok :: "path \<Rightarrow> node \<Rightarrow> exn + node" where
  "mkdir_exist_ok p fs =
     (case lookup fs p of
        Some (Dir es) \<Rightarrow> Inr fs
      | Some (File c) \<Rightarrow> Inl (OSError p)
      | None \<Rightarrow>
          (case lookup fs (butlast p) of
             Some (Dir es) \<Rightarrow> Inr (set_at p (Some (Dir [])) fs)
           | _ \<Rightarrow> Inl (OSError p)))"

text \<open>
  \<open>Path.replace(target)\<close>, that is \<open>os.replace\<close>: the entry moves to the target, whose
  parent must be a directory. An existing target is overwritten when both are regular
  files or when it is an empty directory and the source is a directory; a directory
  cannot move below itself.
\<close>

definition os_replace :: "path \<Rightarrow> path \<Rightarrow> node \<Rightarrow> exn + node" where
  "os_replace src dst fs =
     (case lookup fs src of
        None \<Rightarrow> Inl (OSError src)
      | Some n \<Rightarrow>
          if src = [] \<or> dst = [] \<or> \<not> is_dir fs (butlast dst) then Inl (OSError dst)
          else if src = dst then Inr fs
          else if prefix src dst then Inl (OSError dst)
          else
            (case (n, lookup fs dst) of
               (_, None) \<Rightarrow> Inr (set_at dst (Some n) (set_at src None fs))
             | (File c, Some (File c')) \<Rightarrow> Inr (set_at dst (Some n) (set_at src None fs))
             | (Dir es, Some (Dir [])) \<Rightarrow> Inr (set_at dst (Some n) (set_at src None fs))
             | _ \<Rightarrow> Inl (OSError dst)))"

text \<open>\<open>Path.unlink()\<close>: removes a regular file.\<close>

definition unlink :: "path \<Rightarrow> node \<Rightarrow> exn + node" where
  "unlink p fs =
     (case lookup fs p of
        Some (File c) \<Rightarrow> Inr (set_at p None fs)
      | _ \<Rightarrow> Inl (OSError p))"

text \<open>
  What a decoder writes: each extracted entry is placed in the directory under its own
  name, replacing an entry of that name.
\<close>

definition extract_into :: "path \<Rightarrow> entries \<Rightarrow> node \<Rightarrow> node" where
  "extract_into d new fs =
     (case lookup fs d of
        Some (Dir es) \<Rightarrow> set_at d (Some (Dir (fold (\<lambda>(x, n). AList.update x n) new es))) fs
      | _ \<Rightarrow> fs)"

text \<open>
  \<open>Path.glob("**/*")\<close>: every entry below a directory, at any depth, in the order of
  pathlib's recursive selector: the entries of the directory as the system lists them,
  then, for each of its subdirectories in turn, the glob of that subdirectory.

  The code iterates a generator, which lists a directory only when it reaches it. Here
  the glob is the list of the entries of the tree as it stands when the loop starts:
  what the body of the loop creates or moves meanwhile is not visited. The properties
  of the loops below are stated on the body and on a loop over any list of paths, so
  they do not rest on this.
\<close>

definition listing :: "path \<Rightarrow> entries \<Rightarrow> path list" where
  "listing pre es = map (\<lambda>(x, n). pre @ [x]) es"

function (sequential) walk_below :: "path \<Rightarrow> entries \<Rightarrow> path list" where
  "walk_below pre [] = []"
| "walk_below pre ((x, File c) # es) = walk_below pre es"
| "walk_below pre ((x, Dir ds) # es) =
     (listing (pre @ [x]) ds @ walk_below (pre @ [x]) ds) @ walk_below pre es"
  by pat_completeness auto
termination
  by (relation "measure (\<lambda>(pre, es). size_list (size_prod (\<lambda>_. 0) size) es)") auto

definition walk :: "path \<Rightarrow> entries \<Rightarrow> path list" where
  "walk pre es = listing pre es @ walk_below pre es"

definition glob_all :: "path \<Rightarrow> node \<Rightarrow> path list" where
  "glob_all root fs = (case lookup fs root of Some (Dir es) \<Rightarrow> walk root es | _ \<Rightarrow> [])"

text \<open>\<open>Path.glob("**/*.*")\<close>: the entries whose name contains a dot.\<close>

definition glob_dotted :: "path \<Rightarrow> node \<Rightarrow> path list" where
  "glob_dotted root fs =
     filter (\<lambda>p. of_char CHR ''.'' \<in> set (name_of p)) (glob_all root fs)"

text \<open>\<open>str(path)\<close> of an absolute path.\<close>

definition path_str :: "path \<Rightarrow> ustring" where
  "path_str p = (if p = [] then ustr ''/'' else concat (map (\<lambda>c. of_char CHR ''/'' # c) p))"

section \<open>FileOrganizer\<close>

text \<open>
  The object's attributes. \<open>root_dir\<close> is read by two methods and assigned by none:
  it is \<open>None\<close> while the attribute does not exist.
\<close>

record organizer =
  source_folder :: path
  destination_folder :: path
  categories :: "(ustring \<times> ustring list) list"
  root_dir :: "path option"

definition default_categories :: "(ustring \<times> ustring list) list" where
  "default_categories =
     [(ustr ''Audio'', [ustr ''.mp3'', ustr ''.wav'', ustr ''.ogg'', ustr ''.amr'']),
      (ustr ''Docs'', [ustr ''.doc'', ustr ''.docx'', ustr ''.txt'', ustr ''.pdf'',
                       ustr ''.xlsx'', ustr ''.pptx'']),
      (ustr ''Images'', [ustr ''.jpeg'', ustr ''.png'', ustr ''.jpg'', ustr ''.svg'']),
      (ustr ''Video'', [ustr ''.avi'', ustr ''.mp4'', ustr ''.mov'', ustr ''.mkv'']),
      (ustr ''Archives'', [ustr ''.zip'', ustr ''.gz'', ustr ''.tar'', ustr ''.rar''])]"

text \<open>
  \<open>__init__(self, source_folder, destination_folder)\<close>, called with the list of its
  positional arguments: both parameters are required, so any other number of arguments
  raises TypeError, as Python does when it binds the call.
\<close>

definition FileOrganizer :: "path list \<Rightarrow> exn + organizer" where
  "FileOrganizer args =
     (case args of
        [src, dst] \<Rightarrow>
          Inr \<lparr>source_folder = src, destination_folder = dst,
               categories = default_categories, root_dir = None\<rparr>
      | _ \<Rightarrow> Inl (TypeError (ustr ''__init__() missing or extra positional arguments'')))"

definition normalize :: "library \<Rightarrow> ustring \<Rightarrow> ustring" where
  "normalize L text =
     (let transliterated_text = translit L text;
          normalized_text = re_sub transliterated_text
      in str_lower (unicode_lower L) normalized_text)"

fun first_category :: "(ustring \<times> ustring list) list \<Rightarrow> ustring \<Rightarrow> ustring" where
  "first_category [] ext = ustr ''Other''"
| "first_category ((cat, exts) # rest) ext =
     (if ext \<in> set exts then cat else first_category rest ext)"

definition get_category :: "library \<Rightarrow> organizer \<Rightarrow> path \<Rightarrow> ustring" where
  "get_category L org file =
     (let ext = str_lower (unicode_lower L) (suffix_of (name_of file))
      in first_category (categories org) ext)"

text \<open>
  The state the methods run in: the file tree and the lines printed so far. A method
  returns \<open>Done\<close> or the exception that left it, with the state as it then stands.
\<close>

record world =
  disk :: node
  printed :: "ustring list"

datatype outcome = Done | Raised exn

text \<open>
  \<open>move_file\<close>. \<open>joinpath\<close> appends one component: the category names of the table,
  \<open>Other\<close> and a file name hold no separator.
\<close>

definition new_filename :: "library \<Rightarrow> path \<Rightarrow> ustring" where
  "new_filename L file = normalize L (stem_of (name_of file)) @ suffix_of (name_of file)"

definition move_file :: "library \<Rightarrow> organizer \<Rightarrow> path \<Rightarrow> ustring \<Rightarrow> node \<Rightarrow> outcome \<times> node" where
  "move_file L org file category fs0 =
     (let target_dir = destination_folder org @ [category] in
      case (if \<not> path_exists fs0 target_dir then mkdir_parents target_dir fs0 else Inr fs0) of
        Inl e \<Rightarrow> (Raised e, fs0)
      | Inr fs1 \<Rightarrow>
          (let new_path = target_dir @ [new_filename L file] in
           if \<not> path_exists fs1 new_path then
             (case os_replace file new_path fs1 of
                Inl e \<Rightarrow> (Raised e, fs1)
              | Inr fs2 \<Rightarrow> (Done, fs2))
           else (Done, fs1)))"

text \<open>
  The loop of \<open>remove_empty_folders\<close> over the entries of one directory: a regular file
  is passed over; a directory is first emptied of its own empty directories by the
  recursive call, then removed (\<open>rmdir\<close>) if nothing is left in it.
\<close>

function (sequential) prune_entries :: "entries \<Rightarrow> entries" where
  "prune_entries [] = []"
| "prune_entries ((x, File c) # es) = (x, File c) # prune_entries es"
| "prune_entries ((x, Dir ds) # es) =
     (case prune_entries ds of
        [] \<Rightarrow> prune_entries es
      | d # ds' \<Rightarrow> (x, Dir (d # ds')) # prune_entries es)"
  by pat_completeness auto
termination
  by (relation "measure (size_list (size_prod (\<lambda>_. 0) size))") auto

definition remove_empty_folders :: "organizer \<Rightarrow> path option \<Rightarrow> node \<Rightarrow> outcome \<times> node" where
  "remove_empty_folders org root_path fs0 =
     (case (case root_path of None \<Rightarrow> root_dir org | Some p \<Rightarrow> Some p) of
        None \<Rightarrow> (Raised (AttributeError (ustr ''root_dir'')), fs0)
      | Some root \<Rightarrow>
          (case lookup fs0 root of
             Some (Dir es) \<Rightarrow> (Done, set_at root (Some (Dir (prune_entries es))) fs0)
           | _ \<Rightarrow> (Raised (OSError root), fs0)))"

text \<open>
  The \<open>except (shutil.ReadError, rarfile.Error)\<close> clause of
  \<open>extract_and_move_archives\<close>: these two are reported in two lines and the loop goes
  on; any other exception leaves the method.
\<close>

definition report :: "path \<Rightarrow> ustring \<Rightarrow> ustring list" where
  "report archive_path e =
     [ustr ''Error extracting '' @ path_str archive_path @ ustr '': '' @ e,
      ustr ''Skipping file: '' @ path_str archive_path]"

definition except_clause :: "path \<Rightarrow> exn \<Rightarrow> world \<Rightarrow> outcome \<times> world" where
  "except_clause archive_path e w =
     (case e of
        ReadError m \<Rightarrow> (Done, w\<lparr>printed := printed w @ report archive_path m\<rparr>)
      | RarError m \<Rightarrow> (Done, w\<lparr>printed := printed w @ report archive_path m\<rparr>)
      | _ \<Rightarrow> (Raised e, w))"

text \<open>
  What follows a decoder call inside the \<open>try\<close>. The entries the decoder has written
  are in the subfolder, whether it returned or raised; after a successful extraction the
  archive is unlinked.
\<close>

definition after_decode :: "path \<Rightarrow> path \<Rightarrow> decoded \<Rightarrow> world \<Rightarrow> outcome \<times> world" where
  "after_decode archive_path archive_subdir d w =
     (case d of
        Raises e es \<Rightarrow>
          except_clause archive_path e (w\<lparr>disk := extract_into archive_subdir es (disk w)\<rparr>)
      | Extracted es \<Rightarrow>
          (let w1 = w\<lparr>disk := extract_into archive_subdir es (disk w)\<rparr> in
           case unlink archive_path (disk w1) of
             Inl e \<Rightarrow> except_clause archive_path e w1
           | Inr fs2 \<Rightarrow> (Done, w1\<lparr>disk := fs2\<rparr>)))"

text \<open>The body of the loop of \<open>extract_and_move_archives\<close>, for one path of the glob.\<close>

definition extract_one :: "library \<Rightarrow> path \<Rightarrow> path \<Rightarrow> world \<Rightarrow> outcome \<times> world" where
  "extract_one L archive_dir archive_path w =
     (let archive_name = stem_of (name_of archive_path);
          archive_subdir = archive_dir @ [archive_name];
          ext = str_lower (unicode_lower L) (suffix_of (name_of archive_path))
      in case mkdir_exist_ok archive_subdir (disk w) of
           Inl e \<Rightarrow> except_clause archive_path e w
         | Inr fs1 \<Rightarrow>
             (let w1 = w\<lparr>disk := fs1\<rparr> in
              if ext = ustr ''.rar'' then
                after_decode archive_path archive_subdir (rar_extractall L archive_path fs1) w1
              else if ext \<in> {ustr ''.zip'', ustr ''.gz'', ustr ''.tar''} then
                after_decode archive_path archive_subdir (unpack_archive L archive_path fs1) w1
              else (Done, w1)))"

fun extract_loop :: "library \<Rightarrow> path \<Rightarrow> path list \<Rightarrow> world \<Rightarrow> outcome \<times> world" where
  "extract_loop L archive_dir [] w = (Done, w)"
| "extract_loop L archive_dir (archive_path # rest) w =
     (case extract_one L archive_dir archive_path w of
        (Done, w') \<Rightarrow> extract_loop L archive_dir rest w'
      | (Raised e, w') \<Rightarrow> (Raised e, w'))"

definition extract_and_move_archives :: "library \<Rightarrow> organizer \<Rightarrow> world \<Rightarrow> outcome \<times> world" where
  "extract_and_move_archives L org w =
     (case root_dir org of
        None \<Rightarrow> (Raised (AttributeError (ustr ''root_dir'')), w)
      | Some root \<Rightarrow>
          extract_loop L (root @ [ustr ''Archives'']) (glob_dotted root (disk w)) w)"

fun organize_loop :: "library \<Rightarrow> organizer \<Rightarrow> path list \<Rightarrow> node \<Rightarrow> outcome \<times> node" where
  "organize_loop L org [] fs0 = (Done, fs0)"
| "organize_loop L org (element # rest) fs0 =
     (if is_file fs0 element then
        (case move_file L org element (get_category L org element) fs0 of
           (Done, fs1) \<Rightarrow> organize_loop L org rest fs1
         | (Raised e, fs1) \<Rightarrow> (Raised e, fs1))
      else organize_loop L org rest fs0)"

definition organize_files :: "library \<Rightarrow> organizer \<Rightarrow> node \<Rightarrow> outcome \<times> node" where
  "organize_files L org fs0 = organize_loop L org (glob_all (source_folder org) fs0) fs0"

definition organize :: "library \<Rightarrow> organizer \<Rightarrow> world \<Rightarrow> outcome \<times> world" where
  "organize L org w =
     (case organize_files L org (disk w) of
        (Raised e, fs1) \<Rightarrow> (Raised e, w\<lparr>disk := fs1\<rparr>)
      | (Done, fs1) \<Rightarrow>
          (case extract_and_move_archives L org (w\<lparr>disk := fs1\<rparr>) of
             (Raised e, w2) \<Rightarrow> (Raised e, w2)
           | (Done, w2) \<Rightarrow>
               (case remove_empty_folders org None (disk w2) of
                  (Raised e, fs3) \<Rightarrow> (Raised e, w2\<lparr>disk := fs3\<rparr>)
                | (Done, fs3) \<Rightarrow> (Done, w2\<lparr>disk := fs3, printed := printed w2 @ [ustr ''All ok'']\<rparr>))))"

section \<open>The command line\<close>

text \<open>
  \<open>main\<close>, run with the one positional argument \<open>arg\<close> that argparse hands over.
  \<open>path.exists()\<close> answers for a path that holds an entry or is absent, and raises where
  \<open>os.stat\<close> fails otherwise.
\<close>

definition main :: "library \<Rightarrow> ustring \<Rightarrow> world \<Rightarrow> outcome \<times> world" where
  "main L arg w =
     (case path_of_string L arg of
        Inl (ValueError m) \<Rightarrow> (Done, w\<lparr>printed := printed w @ [ustr ''Error: '' @ m]\<rparr>)
      | Inl e \<Rightarrow> (Raised e, w)
      | Inr path \<Rightarrow>
          (case stat_error L path of
             Some e \<Rightarrow> (Raised e, w)
           | None \<Rightarrow>
               if \<not> path_exists (disk w) path then
                 (Done, w\<lparr>printed := printed w @ [ustr ''Error: Folder does not exist'']\<rparr>)
               else
                 (case FileOrganizer [path] of
                    Inl e \<Rightarrow> (Raised e, w)
                  | Inr organizer \<Rightarrow> organize L organizer w)))"

section \<open>Notions used in the properties\<close>

text \<open>The characters of a normalized name, \<open>[a-z0-9_]\<close>, and those of \<open>[A-Za-z0-9_]\<close>.\<close>

definition token_char :: "uchar \<Rightarrow> bool" where
  "token_char c \<longleftrightarrow>
     (of_char CHR ''a'' \<le> c \<and> c \<le> of_char CHR ''z'') \<or>
     (of_char CHR ''0'' \<le> c \<and> c \<le> of_char CHR ''9'') \<or> c = of_char CHR ''_''"

definition word_char :: "uchar \<Rightarrow> bool" where
  "word_char c \<longleftrightarrow> is_alnum c \<or> c = of_char CHR ''_''"

text \<open>What \<open>normalize\<close> does to one code point of the transliterated text.\<close>

definition normalize_char :: "uchar \<Rightarrow> uchar" where
  "normalize_char c = (if is_alnum c then ascii_lower c else of_char CHR ''_'')"

text \<open>
  The contract of the transliteration that idempotence rests on: text that is already
  made of ASCII letters, digits and underscores passes through unchanged.
\<close>

definition latin_passthrough :: "library \<Rightarrow> bool" where
  "latin_passthrough L \<longleftrightarrow> (\<forall>t. list_all word_char t \<longrightarrow> translit L t = t)"

text \<open>
  Whether a path holds nothing, a regular file (and which content) or a directory.
\<close>

fun kind_of :: "node option \<Rightarrow> content option option" where
  "kind_of None = None"
| "kind_of (Some (File c)) = Some (Some c)"
| "kind_of (Some (Dir es)) = Some None"

text \<open>
  A small library and an organizer to run the definitions on. The transliteration knows
  two Cyrillic letters. The archive decoder rejects an empty file (\<open>shutil.ReadError\<close>),
  fails with another exception on a file that starts with 0 (a corrupt archive that the
  check of the format lets through, as \<open>zipfile.BadZipFile\<close>), and extracts one file from
  any other. In the toy rar format the content of an archive is the name of its first
  member: the rar decoder writes this member, empty, and then fails on the rest
  (\<open>rarfile.Error\<close>). A name of more than 255 code points is too long for \<open>os.stat\<close>.
\<close>

definition toy_library :: library where
  "toy_library =
     \<lparr>translit = (\<lambda>s. concat (map (\<lambda>c. if c = 1078 then ustr ''zh''
                                        else if c = 1072 then ustr ''a'' else [c]) s)),
      unicode_lower = (\<lambda>s. s),
      unpack_archive = (\<lambda>p t. case lookup t p of
                           Some (File c) \<Rightarrow>
                             if c = [] then Raises (ReadError (ustr ''not a zip file'')) []
                             else if take 1 c = [0] then Raises (OtherError (ustr ''BadZipFile'')) []
                             else Extracted [(ustr ''a.txt'', File c)]
                         | _ \<Rightarrow> Raises (ReadError (ustr ''not a zip file'')) []),
      rar_extractall = (\<lambda>p t. case lookup t p of
                           Some (File c) \<Rightarrow>
                             if c = [] then Raises (RarError (ustr ''not a rar file'')) []
                             else Raises (RarError (ustr ''bad crc'')) [(c, File [])]
                         | _ \<Rightarrow> Raises (RarError (ustr ''not a rar file'')) []),
      path_of_string = (\<lambda>s. Inr [s]),
      stat_error = (\<lambda>p. if list_ex (\<lambda>c. 255 < length c) p then Some (OSError p) else None)\<rparr>"

definition toy_organizer :: organizer where
  "toy_organizer =
     \<lparr>source_folder = [ustr ''r''], destination_folder = [ustr ''r''],
      categories = default_categories, root_dir = None\<rparr>"



text \<open>The subfolder the loop makes for a path: \<open>archive_dir / archive_path.stem\<close>.\<close>

definition archive_subdir :: "path \<Rightarrow> path \<Rightarrow> path" where
  "archive_subdir archive_dir archive_path = archive_dir @ [stem_of (name_of archive_path)]"

text \<open>Trees to run the definitions on.\<close>

definition toy_tree :: node where
  "toy_tree =
     Dir [(ustr ''r'',
       Dir [(ustr ''Song.MP3'', File [1]),
            (ustr ''My Photo.JPG'', File [5]),
            (ustr ''Audio'', Dir [(ustr ''song.MP3'', File [2])]),
            (ustr ''e'', Dir [(ustr ''e2'', Dir [])]),
            (ustr ''Docs'', Dir [(ustr ''notes.txt'', File [7])]),
            (ustr ''Archives'', Dir [(ustr ''bad.zip'', File []), (ustr ''x.zip'', File [1, 2, 3])])])]"

definition toy_world :: world where
  "toy_world = \<lparr>disk = toy_tree, printed = []\<rparr>"

definition moved_tree :: node where
  "moved_tree =
     Dir [(ustr ''r'',
       Dir [(ustr ''Song.MP3'', File [1]),
            (ustr ''Audio'', Dir [(ustr ''song.MP3'', File [2])]),
            (ustr ''e'', Dir [(ustr ''e2'', Dir [])]),
            (ustr ''Docs'', Dir [(ustr ''notes.txt'', File [7])]),
            (ustr ''Archives'', Dir [(ustr ''bad.zip'', File []), (ustr ''x.zip'', File [1, 2, 3])]),
            (ustr ''Images'', Dir [(ustr ''my_photo.JPG'', File [5])])])]"

definition tiny_tree :: node where
  "tiny_tree = Dir [(ustr ''r'', Dir [(ustr ''a.zip'', File [1])])]"

definition docs_tree :: node where
  "docs_tree =
     Dir [(ustr ''r'',
       Dir [(ustr ''Archives'', Dir []),
            (ustr ''Docs'', Dir [(ustr ''notes.txt'', File [7])])])]"









section \<open>Lemmas on the file tree\<close>

lemma lookup_append:
  "lookup fs (p @ q) = (case lookup fs p of None \<Rightarrow> None | Some n \<Rightarrow> lookup n q)"
proof (induction p arbitrary: fs)
  case Nil
  show ?case by simp
next
  case (Cons x p)
  show ?case
    by (cases fs) (simp_all add: Cons.IH split: option.splits)
qed

lemma exists_prefix: "prefix p q \<Longrightarrow> lookup fs q = Some n \<Longrightarrow> lookup fs p \<noteq> None"
  by (auto simp: prefix_def lookup_append split: option.splits)

lemma kind_of_None [simp]: "kind_of x = None \<longleftrightarrow> x = None"
  by (cases x rule: kind_of.cases) simp_all

lemma kind_of_File [simp]: "kind_of x = Some (Some c) \<longleftrightarrow> x = Some (File c)"
  by (cases x rule: kind_of.cases) simp_all

lemma kind_of_Dir: "kind_of (lookup fs p) = Some None \<longleftrightarrow> is_dir fs p"
  by (cases "lookup fs p" rule: kind_of.cases) (simp_all add: is_dir_def)

lemma lookup_set_at_same:
  "p \<noteq> [] \<Longrightarrow> is_dir fs (butlast p) \<Longrightarrow> lookup (set_at p v fs) p = v"
proof (induction p v fs rule: set_at.induct)
  case (1 v n)
  then show ?case by simp
next
  case (2 x p v c)
  then show ?case by (cases p) (simp_all add: is_dir_def)
next
  case (3 x v es)
  then show ?case by (cases v) (simp_all add: update_conv' delete_conv')
next
  case (4 x y p v es)
  then show ?case
    by (cases "map_of es x") (simp_all add: is_dir_def update_conv')
qed

lemma lookup_set_at_other:
  "\<not> prefix p q \<Longrightarrow> kind_of (lookup (set_at p v fs) q) = kind_of (lookup fs q)"
proof (induction p v fs arbitrary: q rule: set_at.induct)
  case (1 v n)
  then show ?case by simp
next
  case (2 x p v c)
  then show ?case by simp
next
  case (3 x v es)
  then show ?case
    by (cases q; cases v) (auto simp: update_conv' delete_conv' split: option.splits)
next
  case (4 x y p v es)
  show ?case
  proof (cases q)
    case Nil
    then show ?thesis by (simp split: option.splits)
  next
    case (Cons z q')
    show ?thesis
    proof (cases "map_of es x")
      case None
      then show ?thesis by simp
    next
      case (Some n)
      show ?thesis
      proof (cases "z = x")
        case True
        with "4.prems" Cons have "\<not> prefix (y # p) q'" by simp
        from "4.IH"[OF Some this] show ?thesis
          using Cons True Some by (simp add: update_conv')
      next
        case False
        then show ?thesis using Cons Some by (simp add: update_conv')
      qed
    qed
  qed
qed


lemma set_at_keeps_dir:
  "is_dir fs q \<Longrightarrow> \<not> prefix p q \<Longrightarrow> is_dir (set_at p v fs) q"
  using lookup_set_at_other[of p q v fs] by (simp flip: kind_of_Dir)

lemma set_at_keeps_none:
  "lookup fs q = None \<Longrightarrow> \<not> prefix p q \<Longrightarrow> lookup (set_at p v fs) q = None"
  using lookup_set_at_other[of p q v fs] by simp


lemma mkdir_p_is_dir: "mkdir_p p fs = Inr fs' \<Longrightarrow> is_dir fs' p"
proof (induction p fs arbitrary: fs' rule: mkdir_p.induct)
  case (1 es)
  then show ?case by (auto simp: is_dir_def)
next
  case (2 c)
  then show ?case by simp
next
  case (3 x p c)
  then show ?case by simp
next
  case (4 x p es)
  then show ?case
    by (auto simp: is_dir_def update_conv' split: sum.splits)
qed

lemma mkdir_p_keeps_file:
  "mkdir_p p fs = Inr fs' \<Longrightarrow> lookup fs q = Some (File c) \<Longrightarrow> lookup fs' q = Some (File c)"
proof (induction p fs arbitrary: fs' q rule: mkdir_p.induct)
  case (1 es)
  then show ?case by simp
next
  case (2 c)
  then show ?case by simp
next
  case (3 x p c)
  then show ?case by simp
next
  case (4 x p es)
  from "4.prems"(1) obtain n' where
    n': "mkdir_p p (case map_of es x of None \<Rightarrow> Dir [] | Some n \<Rightarrow> n) = Inr n'"
    and fs': "fs' = Dir (AList.update x n' es)"
    by (auto split: sum.splits)
  show ?case
  proof (cases q)
    case Nil
    with "4.prems"(2) show ?thesis by simp
  next
    case (Cons y q')
    show ?thesis
    proof (cases "y = x")
      case False
      with Cons "4.prems"(2) fs' show ?thesis by (simp add: update_conv')
    next
      case True
      with Cons "4.prems"(2) obtain n where m: "map_of es x = Some n"
        and l: "lookup n q' = Some (File c)"
        by (auto split: option.splits)
      from "4.IH" [OF n' ] m l have "lookup n' q' = Some (File c)" by simp
      with True Cons fs' show ?thesis by (simp add: update_conv')
    qed
  qed
qed

lemma mkdir_p_fresh_empty:
  "mkdir_p p fs = Inr fs' \<Longrightarrow> lookup fs p = None \<Longrightarrow> lookup fs' (p @ [y]) = None"
proof (induction p fs arbitrary: fs' rule: mkdir_p.induct)
  case (1 es)
  then show ?case by simp
next
  case (2 c)
  then show ?case by simp
next
  case (3 x p c)
  then show ?case by simp
next
  case (4 x p es)
  from "4.prems"(1) obtain n' where
    n': "mkdir_p p (case map_of es x of None \<Rightarrow> Dir [] | Some n \<Rightarrow> n) = Inr n'"
    and fs': "fs' = Dir (AList.update x n' es)"
    by (auto split: sum.splits)
  show ?case
  proof (cases "map_of es x")
    case (Some n)
    with "4.prems"(2) have "lookup n p = None" by simp
    with "4.IH" [OF n'] Some have "lookup n' (p @ [y]) = None" by simp
    with fs' show ?thesis by (simp add: update_conv')
  next
    case None
    show ?thesis
    proof (cases p)
      case Nil
      with n' None have "n' = Dir []" by simp
      with fs' Nil show ?thesis by (simp add: update_conv')
    next
      case (Cons z p')
      then have "lookup (Dir []) p = None" by simp
      with "4.IH" [OF n'] None have "lookup n' (p @ [y]) = None" by simp
      with fs' show ?thesis by (simp add: update_conv')
    qed
  qed
qed

lemma os_replace_file:
  assumes "os_replace src dst fs = Inr fs'" and "lookup fs src = Some (File c)"
    and "lookup fs dst = None"
  shows "lookup fs' dst = Some (File c) \<and> lookup fs' src = None"
proof -
  from assms have ne: "src \<noteq> []" "dst \<noteq> []" and d: "is_dir fs (butlast dst)"
    and np: "\<not> prefix src dst" and sd: "src \<noteq> dst"
    and fs': "fs' = set_at dst (Some (File c)) (set_at src None fs)"
    by (auto simp: os_replace_def split: if_splits)
  let ?m = "set_at src None fs"
  have "\<not> prefix src (butlast dst)"
    using np by (metis append_butlast_last_id ne(2) prefix_order.trans prefixI)
  with d have d': "is_dir ?m (butlast dst)" by (rule set_at_keeps_dir)
  have 1: "lookup fs' dst = Some (File c)"
    unfolding fs' using ne(2) d' by (rule lookup_set_at_same)
  have "lookup fs (butlast src) \<noteq> None"
    using exists_prefix [OF _ assms(2), of "butlast src"] by (simp add: prefixeq_butlast)
  moreover have "lookup fs (butlast src @ [last src]) = Some (File c)"
    using assms(2) ne(1) by simp
  ultimately have "is_dir fs (butlast src)"
    by (cases "lookup fs (butlast src)" rule: kind_of.cases)
       (simp_all add: lookup_append is_dir_def)
  with ne(1) have s: "lookup ?m src = None" by (rule lookup_set_at_same)
  have "\<not> prefix dst src"
    using exists_prefix [OF _ assms(2), of dst] assms(3) by blast
  with s have 2: "lookup fs' src = None"
    unfolding fs' by (rule set_at_keeps_none)
  from 1 2 show ?thesis by simp
qed



section \<open>The text normalizer\<close>

lemma is_ascii_re_sub: "is_ascii (re_sub s)"
  by (auto simp: is_ascii_def re_sub_def list_all_iff is_alnum_def)

lemma normalize_map: "normalize L text = map normalize_char (translit L text)"
  by (simp add: normalize_def str_lower_def is_ascii_re_sub)
     (simp add: re_sub_def ascii_lower_def normalize_char_def)

lemma token_char_normalize_char: "token_char (normalize_char c)"
  by (auto simp: token_char_def is_alnum_def ascii_lower_def normalize_char_def)

lemma word_char_normalize_char: "word_char (normalize_char c)"
  by (auto simp: word_char_def is_alnum_def ascii_lower_def normalize_char_def)

lemma normalize_char_idem: "normalize_char (normalize_char c) = normalize_char c"
  by (auto simp: is_alnum_def ascii_lower_def normalize_char_def)

lemma toy_translit_word: "list_all word_char t \<Longrightarrow> translit toy_library t = t"
  by (induction t) (auto simp: toy_library_def word_char_def is_alnum_def)

text \<open>
  Claim C8. \<open>normalize\<close> is a function of its input (and of the transliteration it
  calls), defined on every string of code points. Its result holds only characters of
  \<open>[a-z0-9_]\<close>; it is the transliterated text with each code point outside
  \<open>[A-Za-z0-9]\<close> replaced by one underscore and each letter lowered, position by
  position, so nothing is collapsed; and the empty input gives the empty output, the
  transliteration of the empty string being empty.
\<close>

theorem normalize_token:
  "list_all token_char (normalize L text) \<and>
   normalize L text = map normalize_char (translit L text) \<and>
   length (normalize L text) = length (translit L text) \<and>
   (translit L [] = [] \<longrightarrow> normalize L [] = [])"
  by (simp add: normalize_map list.pred_map comp_def token_char_normalize_char list.pred_True)

theorem normalize_token_witness:
  "normalize toy_library [1046, 1078, 1072, 32, 70, 46, 46, 49] = ustr ''_zha_f__1'' \<and>
   list_all token_char (ustr ''_zha_f__1'') \<and>
   translit toy_library [] = [] \<and> normalize toy_library [] = []"
proof -
  have t: "translit toy_library [1046, 1078, 1072, 32, 70, 46, 46, 49] =
      [1046, 122, 104, 97, 32, 70, 46, 46, 49]"
    "translit toy_library [] = []"
    by (simp_all add: toy_library_def)
  have n: "map normalize_char [1046, 122, 104, 97, 32, 70, 46, 46, 49] = ustr ''_zha_f__1''"
    by (simp add: normalize_char_def is_alnum_def ascii_lower_def)
  from normalize_token [of toy_library "[1046, 1078, 1072, 32, 70, 46, 46, 49]"]
    normalize_token [of toy_library "[]"] t n
  show ?thesis by (simp add: token_char_def)
qed

text \<open>
  Claim C9. For a string \<open>s\<close> of ASCII letters, digits and underscores,
  \<open>normalize (normalize s) = normalize s\<close>, the transliteration leaving such text
  unchanged.
\<close>

theorem normalize_idempotent:
  assumes "latin_passthrough L" and "list_all word_char s"
  shows "normalize L (normalize L s) = normalize L s"
proof -
  have "list_all word_char (normalize L s)"
    by (simp add: normalize_map list.pred_map comp_def word_char_normalize_char list.pred_True)
  with assms(1) have "translit L (normalize L s) = normalize L s"
    by (simp add: latin_passthrough_def)
  then have "normalize L (normalize L s) = map normalize_char (normalize L s)"
    by (simp add: normalize_map)
  also have "\<dots> = normalize L s"
    by (simp add: normalize_map normalize_char_idem)
  finally show ?thesis .
qed

theorem normalize_idempotent_witness:
  "latin_passthrough toy_library \<and> list_all word_char (ustr ''My_File_2'') \<and>
   normalize toy_library (ustr ''My_File_2'') = ustr ''my_file_2'' \<and>
   normalize toy_library (normalize toy_library (ustr ''My_File_2'')) =
     normalize toy_library (ustr ''My_File_2'')"
proof -
  have p: "latin_passthrough toy_library"
    by (simp add: latin_passthrough_def toy_translit_word)
  have w: "list_all word_char (ustr ''My_File_2'')"
    by (simp add: word_char_def is_alnum_def)
  have n: "normalize toy_library (ustr ''My_File_2'') = ustr ''my_file_2''"
    by (simp add: normalize_map normalize_char_def is_alnum_def ascii_lower_def toy_library_def)
  from normalize_idempotent [OF p w] p w n show ?thesis by simp
qed

section \<open>The category classifier\<close>

lemma first_category_default:
  "(cat, exts) \<in> set default_categories \<Longrightarrow> ext \<in> set exts \<Longrightarrow>
   first_category default_categories ext = cat"
  unfolding default_categories_def by (simp, elim disjE conjE; simp; elim disjE; simp)

lemma first_category_other:
  "(\<forall>(cat, exts) \<in> set default_categories. ext \<notin> set exts) \<Longrightarrow>
   first_category default_categories ext = ustr ''Other''"
  unfolding default_categories_def by simp

lemma FileOrganizer_fields:
  "FileOrganizer args = Inr org \<Longrightarrow> categories org = default_categories \<and> root_dir org = None"
  by (auto simp: FileOrganizer_def split: list.splits)

lemma FileOrganizer_toy: "FileOrganizer [[ustr ''r''], [ustr ''r'']] = Inr toy_organizer"
  by (simp add: FileOrganizer_def toy_organizer_def)

text \<open>
  Claim C3. With the table of the constructor, a file whose extension, lowercased, is
  in the list of a category gets that category, whatever the letter case of the
  extension (for an ASCII extension the lowercasing is that of its letters); a file whose
  lowercased extension is in no list gets \<open>Other\<close>, and so does a file with no
  extension.
\<close>

theorem get_category_by_extension:
  assumes "FileOrganizer [src, dst] = Inr org"
  shows "(\<forall>cat exts. (cat, exts) \<in> set default_categories \<and>
            str_lower (unicode_lower L) (suffix_of (name_of file)) \<in> set exts
            \<longrightarrow> get_category L org file = cat) \<and>
         (\<forall>cat exts. (cat, exts) \<in> set default_categories \<and>
            is_ascii (suffix_of (name_of file)) \<and>
            map ascii_lower (suffix_of (name_of file)) \<in> set exts
            \<longrightarrow> get_category L org file = cat) \<and>
         ((\<forall>(cat, exts) \<in> set default_categories.
            str_lower (unicode_lower L) (suffix_of (name_of file)) \<notin> set exts)
            \<longrightarrow> get_category L org file = ustr ''Other'') \<and>
         (suffix_of (name_of file) = [] \<longrightarrow> get_category L org file = ustr ''Other'')"
proof -
  have c: "categories org = default_categories"
    using assms FileOrganizer_fields by blast
  have 1: "get_category L org file = cat"
    if "(cat, exts) \<in> set default_categories"
      "str_lower (unicode_lower L) (suffix_of (name_of file)) \<in> set exts" for cat exts
    using that by (simp add: get_category_def c first_category_default)
  have 2: "get_category L org file = cat"
    if "(cat, exts) \<in> set default_categories" "is_ascii (suffix_of (name_of file))"
      "map ascii_lower (suffix_of (name_of file)) \<in> set exts" for cat exts
    using that 1 [of cat exts] by (simp add: str_lower_def)
  have 3: "get_category L org file = ustr ''Other''"
    if "\<forall>(cat, exts) \<in> set default_categories.
            str_lower (unicode_lower L) (suffix_of (name_of file)) \<notin> set exts"
    using that unfolding get_category_def c Let_def by (rule first_category_other)
  have 4: "get_category L org file = ustr ''Other''" if "suffix_of (name_of file) = []"
    using that by (simp add: get_category_def c str_lower_def is_ascii_def default_categories_def)
  from 1 2 3 4 show ?thesis by blast
qed

theorem get_category_by_extension_witness:
  "FileOrganizer [[ustr ''r''], [ustr ''r'']] = Inr toy_organizer \<and>
   get_category toy_library toy_organizer [ustr ''r'', ustr ''Song.MP3''] = ustr ''Audio'' \<and>
   get_category toy_library toy_organizer [ustr ''r'', ustr ''a.xyz''] = ustr ''Other'' \<and>
   get_category toy_library toy_organizer [ustr ''r'', ustr ''notes''] = ustr ''Other''"
proof -
  note t = get_category_by_extension [OF FileOrganizer_toy, of toy_library]
  have a: "(ustr ''Audio'', [ustr ''.mp3'', ustr ''.wav'', ustr ''.ogg'', ustr ''.amr''])
      \<in> set default_categories"
    by (simp add: default_categories_def)
  have "get_category toy_library toy_organizer [ustr ''r'', ustr ''Song.MP3''] = ustr ''Audio''"
    using t [of "[ustr ''r'', ustr ''Song.MP3'']", THEN conjunct2, THEN conjunct1, rule_format,
        of "ustr ''Audio''" "[ustr ''.mp3'', ustr ''.wav'', ustr ''.ogg'', ustr ''.amr'']"] a
    by (simp add: suffix_of_def name_of_def is_ascii_def ascii_lower_def)
  moreover have "get_category toy_library toy_organizer [ustr ''r'', ustr ''a.xyz''] = ustr ''Other''"
    using t [of "[ustr ''r'', ustr ''a.xyz'']", THEN conjunct2, THEN conjunct2, THEN conjunct1]
    by (simp add: suffix_of_def name_of_def str_lower_def is_ascii_def ascii_lower_def default_categories_def)
  moreover have "get_category toy_library toy_organizer [ustr ''r'', ustr ''notes''] = ustr ''Other''"
    using t [of "[ustr ''r'', ustr ''notes'']", THEN conjunct2, THEN conjunct2, THEN conjunct2]
    by (simp add: suffix_of_def name_of_def)
  ultimately show ?thesis using FileOrganizer_toy by simp
qed

section \<open>The file relocator\<close>

lemma toy_new_filename:
  "new_filename toy_library [ustr ''r'', ustr ''Song.MP3''] = ustr ''song.MP3''"
  by (simp add: new_filename_def normalize_map normalize_char_def is_alnum_def ascii_lower_def
      toy_library_def stem_of_def suffix_of_def name_of_def)

text \<open>
  Claim C4. Where an entry already exists at the target path, destination folder /
  category / new file name, \<open>move_file\<close> returns normally and leaves the whole tree as it
  was: the source stays where it is and the target is not overwritten.
\<close>

theorem move_file_skips_existing_target:
  assumes "path_exists fs0 (destination_folder org @ [category, new_filename L file])"
  shows "move_file L org file category fs0 = (Done, fs0)"
proof -
  have "prefix (destination_folder org @ [category])
      (destination_folder org @ [category, new_filename L file])"
    by simp
  with assms have "path_exists fs0 (destination_folder org @ [category])"
    unfolding path_exists_def using exists_prefix by blast
  with assms show ?thesis by (simp add: move_file_def)
qed

theorem move_file_skips_existing_target_witness:
  "path_exists toy_tree
     (destination_folder toy_organizer @ [ustr ''Audio'', ustr ''song.MP3'']) \<and>
   new_filename toy_library [ustr ''r'', ustr ''Song.MP3''] = ustr ''song.MP3'' \<and>
   move_file toy_library toy_organizer [ustr ''r'', ustr ''Song.MP3''] (ustr ''Audio'') toy_tree
     = (Done, toy_tree) \<and>
   lookup toy_tree [ustr ''r'', ustr ''Song.MP3''] = Some (File [1]) \<and>
   lookup toy_tree [ustr ''r'', ustr ''Audio'', ustr ''song.MP3''] = Some (File [2])"
proof -
  have e: "path_exists toy_tree
     (destination_folder toy_organizer @ [ustr ''Audio'', ustr ''song.MP3''])"
    by (simp add: path_exists_def toy_tree_def toy_organizer_def)
  have l: "lookup toy_tree [ustr ''r'', ustr ''Song.MP3''] = Some (File [1])"
    "lookup toy_tree [ustr ''r'', ustr ''Audio'', ustr ''song.MP3''] = Some (File [2])"
    by (simp_all add: toy_tree_def)
  from move_file_skips_existing_target
    [of toy_tree toy_organizer "ustr ''Audio''" toy_library "[ustr ''r'', ustr ''Song.MP3'']"]
    e l toy_new_filename
  show ?thesis by simp
qed

text \<open>
  Claim C10. A regular file that \<open>move_file\<close> moves (the call returns and nothing was at the
  target path) is afterwards found, with its content, in the category directory under
  the name made of the normalized stem followed by the extension as it was; it is gone
  from its old path. Stem and extension are the two parts of the old name.
\<close>

theorem move_file_new_name:
  assumes "move_file L org file category fs0 = (Done, fs')"
    and "lookup fs0 file = Some (File c)"
    and "\<not> path_exists fs0 (destination_folder org @ [category, new_filename L file])"
  shows "lookup fs' (destination_folder org @
            [category, normalize L (stem_of (name_of file)) @ suffix_of (name_of file)])
           = Some (File c) \<and>
         lookup fs' file = None \<and>
         stem_of (name_of file) @ suffix_of (name_of file) = name_of file"
proof -
  let ?td = "destination_folder org @ [category]"
  let ?np = "?td @ [new_filename L file]"
  have sn: "stem_of (name_of file) @ suffix_of (name_of file) = name_of file"
    by (simp add: stem_of_def suffix_of_def split: option.splits)
  obtain fs1 where
    m: "(if \<not> path_exists fs0 ?td then mkdir_parents ?td fs0 else Inr fs0) = Inr fs1"
    using assms(1) by (auto simp: move_file_def Let_def split: sum.splits)
  have f1: "lookup fs1 file = Some (File c)"
    using m assms(2)
    by (auto simp: mkdir_parents_def split: if_splits sum.splits dest: mkdir_p_keeps_file)
  have n1: "lookup fs1 ?np = None"
  proof (cases "path_exists fs0 ?td")
    case True
    with m have "fs1 = fs0" by simp
    with assms(3) show ?thesis by (simp add: path_exists_def)
  next
    case False
    with m have "mkdir_p ?td fs0 = Inr fs1" "lookup fs0 ?td = None"
      by (auto simp: mkdir_parents_def path_exists_def split: sum.splits)
    then show ?thesis by (rule mkdir_p_fresh_empty)
  qed
  from assms(1) m n1 have "os_replace file ?np fs1 = Inr fs'"
    by (auto simp: move_file_def Let_def path_exists_def split: sum.splits)
  from os_replace_file [OF this f1 n1] sn show ?thesis
    by (simp add: new_filename_def)
qed

theorem move_file_new_name_witness:
  "move_file toy_library toy_organizer [ustr ''r'', ustr ''My Photo.JPG''] (ustr ''Images'')
     toy_tree = (Done, moved_tree) \<and>
   lookup toy_tree [ustr ''r'', ustr ''My Photo.JPG''] = Some (File [5]) \<and>
   \<not> path_exists toy_tree [ustr ''r'', ustr ''Images'', ustr ''my_photo.JPG''] \<and>
   lookup moved_tree [ustr ''r'', ustr ''Images'', ustr ''my_photo.JPG''] = Some (File [5]) \<and>
   lookup moved_tree [ustr ''r'', ustr ''My Photo.JPG''] = None"
proof -
  have n: "new_filename toy_library [ustr ''r'', ustr ''My Photo.JPG''] = ustr ''my_photo.JPG''"
    "normalize toy_library (stem_of (name_of [ustr ''r'', ustr ''My Photo.JPG''])) @
       suffix_of (name_of [ustr ''r'', ustr ''My Photo.JPG'']) = ustr ''my_photo.JPG''"
    by (simp_all add: new_filename_def normalize_map normalize_char_def is_alnum_def
        ascii_lower_def toy_library_def stem_of_def suffix_of_def name_of_def)
  have m: "move_file toy_library toy_organizer [ustr ''r'', ustr ''My Photo.JPG'']
      (ustr ''Images'') toy_tree = (Done, moved_tree)"
    by (simp add: move_file_def toy_tree_def moved_tree_def toy_organizer_def path_exists_def
        mkdir_parents_def new_filename_def normalize_map normalize_char_def is_alnum_def
        ascii_lower_def toy_library_def stem_of_def suffix_of_def name_of_def os_replace_def
        is_dir_def)
  have l: "lookup toy_tree [ustr ''r'', ustr ''My Photo.JPG''] = Some (File [5])"
    by (simp add: toy_tree_def)
  have e: "\<not> path_exists toy_tree
      (destination_folder toy_organizer @
        [ustr ''Images'', new_filename toy_library [ustr ''r'', ustr ''My Photo.JPG'']])"
    unfolding n by (simp add: path_exists_def toy_tree_def toy_organizer_def)
  from move_file_new_name [OF m l e] m l e n show ?thesis
    by (simp add: toy_organizer_def)
qed

section \<open>The pruner of empty directories\<close>







section \<open>The archive expander\<close>


















text \<open>
  Claim C6, at a concrete input. The loop makes the subfolder before it looks at the
  suffix: with \<open>root_dir\<close> set to the root \<open>/r\<close> that holds \<open>Archives\<close> and
  \<open>Docs/notes.txt\<close>, the only path of the glob is the text file, and the run creates the
  directory \<open>Archives/notes\<close> for it. On the object as the constructor builds it the method
  raises AttributeError and creates nothing.
\<close>

theorem subfolder_for_non_archive:
  "FileOrganizer [[ustr ''r''], [ustr ''r'']] = Inr toy_organizer \<and>
   glob_dotted [ustr ''r''] docs_tree = [[ustr ''r'', ustr ''Docs'', ustr ''notes.txt'']] \<and>
   extract_and_move_archives toy_library (toy_organizer\<lparr>root_dir := Some [ustr ''r'']\<rparr>)
     \<lparr>disk = docs_tree, printed = []\<rparr> =
     (Done,
      \<lparr>disk = Dir [(ustr ''r'',
                 Dir [(ustr ''Archives'', Dir [(ustr ''notes'', Dir [])]),
                      (ustr ''Docs'', Dir [(ustr ''notes.txt'', File [7])])])],
       printed = []\<rparr>) \<and>
   extract_and_move_archives toy_library toy_organizer \<lparr>disk = docs_tree, printed = []\<rparr> =
     (Raised (AttributeError (ustr ''root_dir'')), \<lparr>disk = docs_tree, printed = []\<rparr>)"
  by (simp add: FileOrganizer_def extract_and_move_archives_def glob_dotted_def glob_all_def walk_def listing_def docs_tree_def
      toy_organizer_def extract_one_def mkdir_exist_ok_def name_of_def stem_of_def suffix_of_def
      str_lower_def is_ascii_def ascii_lower_def)

section \<open>The full run and the command line\<close>

text \<open>
  Claim C2. The constructor leaves \<open>root_dir\<close> unassigned, so on the object it builds
  \<open>extract_and_move_archives\<close> and \<open>remove_empty_folders\<close> without a root raise
  AttributeError at once. \<open>organize\<close> therefore never returns normally: once the files
  are moved it raises AttributeError with the tree as the moves left it (or it raises
  what the moves raised), and it prints nothing, so \<open>All ok\<close> is never printed.
\<close>

theorem organize_stops_at_root_dir:
  assumes "FileOrganizer [src, dst] = Inr org"
  shows "extract_and_move_archives L org w = (Raised (AttributeError (ustr ''root_dir'')), w) \<and>
         remove_empty_folders org None t = (Raised (AttributeError (ustr ''root_dir'')), t) \<and>
         organize L org w =
           (case organize_files L org (disk w) of
              (Done, t') \<Rightarrow> (Raised (AttributeError (ustr ''root_dir'')), w\<lparr>disk := t'\<rparr>)
            | (Raised e, t') \<Rightarrow> (Raised e, w\<lparr>disk := t'\<rparr>)) \<and>
         fst (organize L org w) \<noteq> Done \<and>
         printed (snd (organize L org w)) = printed w"
proof -
  have n: "root_dir org = None"
    using assms FileOrganizer_fields by blast
  have 1: "extract_and_move_archives L org w = (Raised (AttributeError (ustr ''root_dir'')), w)" for w
    by (simp add: extract_and_move_archives_def n)
  have 2: "remove_empty_folders org None t = (Raised (AttributeError (ustr ''root_dir'')), t)"
    by (simp add: remove_empty_folders_def n)
  have 3: "organize L org w =
           (case organize_files L org (disk w) of
              (Done, t') \<Rightarrow> (Raised (AttributeError (ustr ''root_dir'')), w\<lparr>disk := t'\<rparr>)
            | (Raised e, t') \<Rightarrow> (Raised e, w\<lparr>disk := t'\<rparr>))"
    by (simp add: organize_def 1 split: prod.splits outcome.splits)
  have 4: "fst (organize L org w) \<noteq> Done" "printed (snd (organize L org w)) = printed w"
    unfolding 3 by (simp_all split: prod.splits outcome.splits)
  from 1 2 3 4 show ?thesis by simp
qed

theorem organize_stops_at_root_dir_witness:
  "FileOrganizer [[ustr ''r''], [ustr ''r'']] = Inr toy_organizer \<and>
   organize toy_library toy_organizer \<lparr>disk = tiny_tree, printed = []\<rparr> =
     (Raised (AttributeError (ustr ''root_dir'')),
      \<lparr>disk = Dir [(ustr ''r'', Dir [(ustr ''Archives'', Dir [(ustr ''a.zip'', File [1])])])],
       printed = []\<rparr>)"
proof -
  have f: "organize_files toy_library toy_organizer tiny_tree =
      (Done, Dir [(ustr ''r'', Dir [(ustr ''Archives'', Dir [(ustr ''a.zip'', File [1])])])])"
    by (simp add: organize_files_def glob_all_def walk_def listing_def tiny_tree_def toy_organizer_def
        is_file_def get_category_def str_lower_def is_ascii_def ascii_lower_def
        default_categories_def move_file_def path_exists_def mkdir_parents_def
        new_filename_def normalize_map normalize_char_def is_alnum_def
        toy_library_def stem_of_def suffix_of_def name_of_def os_replace_def is_dir_def)
  from organize_stops_at_root_dir [OF FileOrganizer_toy, of toy_library
      "\<lparr>disk = tiny_tree, printed = []\<rparr>"] f FileOrganizer_toy
  show ?thesis by simp
qed

text \<open>
  Claim C1, at a concrete input. Run with the name of an existing directory, \<open>main\<close>
  calls the constructor with one argument where two are required: it raises TypeError
  before any file is touched and prints nothing. Run with the name of nothing that
  exists, it prints its error line and returns.
\<close>

theorem main_existing_directory_raises:
  "path_of_string toy_library (ustr ''r'') = Inr [ustr ''r''] \<and>
   is_dir toy_tree [ustr ''r''] \<and>
   main toy_library (ustr ''r'') toy_world =
     (Raised (TypeError (ustr ''__init__() missing or extra positional arguments'')), toy_world) \<and>
   \<not> path_exists toy_tree [ustr ''q''] \<and>
   main toy_library (ustr ''q'') toy_world =
     (Done, toy_world\<lparr>printed := [ustr ''Error: Folder does not exist'']\<rparr>)"
  by (simp add: main_def toy_library_def toy_world_def toy_tree_def path_exists_def is_dir_def
      FileOrganizer_def)

end
